theory Spec2Isabelle
  imports Main
begin

section \<open>The validated execution contract of \<open>api-template/src/index.ts\<close>\<close>

text \<open>
  The file embeds \<open>buildFunctionContext\<close> and the \<open>execute\<close> closure it returns
  (the second document of \<open>src/api-template/src/index.ts\<close>, lines 93 to 144), together
  with the example contract \<open>foo\<close> (lines 147 to 162) and the sequence of awaited calls of
  \<open>test\<close> (lines 165 to 180).

  TypeScript erases its types at run time, and every question asked here is about run-time
  values (is a slot \<open>null\<close>, does a value pass a schema, what was thrown), so the values
  are modelled untyped, as JavaScript has them.
\<close>

subsection \<open>JavaScript values\<close>

text \<open>
  The values that flow through \<open>execute\<close>: \<open>null\<close>, \<open>undefined\<close>, booleans,
  numbers, strings, plain objects (their own properties, in insertion order) and instances of
  \<open>Error\<close> with their \<open>message\<close>, which is a string after \<open>new Error("...")\<close> and any
  value once it has been assigned. Numbers are the integer-valued ones: no definition below
  does arithmetic, and the only comparison is \<open>input.id < 0\<close> in the example handler.
\<close>

datatype jsval =
    JNull
  | JUndefined
  | JBool bool
  | JNum int
  | JStr string
  | JObj "(string \<times> jsval) list"
  | JError jsval

text \<open>
  Reading a property \<open>v.k\<close>. On \<open>null\<close> and \<open>undefined\<close> the read throws a
  \<open>TypeError\<close> (an \<open>Error\<close>; the wording of its message is the engine's, the one of V8
  is written in \<open>type_error_message\<close> and no statement below depends on the wording). On
  every other value it yields the property or \<open>undefined\<close>. The keys read by the code are
  \<open>err\<close>, \<open>res\<close>, \<open>id\<close> and \<open>message\<close>, and the keys of the example schemas; none
  of them names a prototype member of a boolean, a number, a string or a plain object, and
  \<open>message\<close> is the only one an \<open>Error\<close> has. An object has each key once; of a list
  that repeats a key the first entry is read.
\<close>

fun read_prop :: "jsval \<Rightarrow> string \<Rightarrow> jsval" where
  "read_prop (JObj kvs) k = (case map_of kvs k of None \<Rightarrow> JUndefined | Some v \<Rightarrow> v)"
| "read_prop (JError m) k = (if k = ''message'' then m else JUndefined)"
| "read_prop _ k = JUndefined"

definition type_error_message :: "string \<Rightarrow> string \<Rightarrow> string" where
  "type_error_message what k =
     ''Cannot read properties of '' @ what @ '' (reading '' @ [CHR 0x27] @ k @ [CHR 0x27] @ '')''"

definition type_error :: "string \<Rightarrow> string \<Rightarrow> jsval" where
  "type_error what k = JError (JStr (type_error_message what k))"

fun get_prop :: "jsval \<Rightarrow> string \<Rightarrow> jsval + jsval" where
  "get_prop JNull k = Inl (type_error ''null'' k)"
| "get_prop JUndefined k = Inl (type_error ''undefined'' k)"
| "get_prop v k = Inr (read_prop v k)"

fun is_string :: "jsval \<Rightarrow> bool" where
  "is_string (JStr s) = True"
| "is_string _ = False"

subsection \<open>Schemas\<close>

text \<open>
  The three schemas are parameters of the contract (\<open>z.ZodType\<close> values of the Zod library,
  which is not part of the repository). The code uses one operation of a schema,
  \<open>safeParse\<close>, and reads \<open>success\<close> and \<open>data\<close> from what it returns: a schema is
  modelled by that operation. \<open>safeParse\<close> reports a failed validation in its result, but
  it does not trap what a callback of the schema (a refinement, a transform) throws, and it
  throws itself on an asynchronous refinement: a call of \<open>safeParse\<close> returns
  \<open>{ success: true, data }\<close>, returns \<open>{ success: false }\<close>, or throws.
\<close>

datatype safe_parse_result =
    Success jsval
  | Failure
  | Throws jsval

type_synonym schema = "jsval \<Rightarrow> safe_parse_result"

subsection \<open>Handlers and promises\<close>

text \<open>
  What \<open>await execution({...})\<close> can do: the handler returns a value or a promise that
  fulfils with one, throws before returning a promise, returns a promise that rejects,
  or returns a promise that never settles. A handler may read and change the world outside
  the contract (a database, the objects it holds references to), of type \<open>'w\<close>.
\<close>

datatype behaviour =
    Return jsval
  | ThrowSync jsval
  | RejectAsync jsval
  | NeverSettles

record execution_args =
  input :: jsval
  error :: "jsval \<Rightarrow> jsval"

type_synonym 'w handler = "execution_args \<Rightarrow> 'w \<Rightarrow> behaviour \<times> 'w"

datatype 'a promise =
    Fulfilled 'a
  | Rejected jsval
  | Pending

record envelope =
  res :: jsval
  err :: jsval

subsection \<open>\<open>buildFunctionContext\<close>\<close>

record 'w build_function_context_req =
  inputSchema :: schema
  responseSchema :: schema
  errorSchema :: schema
  execution :: "'w handler"

text \<open>
  \<open>const errorCreator = (message: string): E => ({ message }) as E\<close>. The annotation
  \<open>string\<close> is erased: the object holds whatever value it is given.
\<close>

definition errorCreator :: "jsval \<Rightarrow> jsval" where
  "errorCreator message = JObj [(''message'', message)]"

text \<open>
  The statements of the \<open>try\<close> block after the \<open>await\<close> (lines 114 to 126): \<open>Inl e\<close>
  when they throw \<open>e\<close>, \<open>Inr env\<close> when they return \<open>env\<close>. What a \<open>safeParse\<close>
  throws here is thrown inside the \<open>try\<close> block.
\<close>

definition validate_result :: "'w build_function_context_req \<Rightarrow> jsval \<Rightarrow> jsval + envelope" where
  "validate_result params result =
     (case get_prop result ''err'' of
        Inl e \<Rightarrow> Inl e
      | Inr result_err \<Rightarrow>
          if result_err \<noteq> JNull then
            (case errorSchema params result_err of
               Throws e \<Rightarrow> Inl e
             | Failure \<Rightarrow> Inl (JError (JStr ''Execution returned an invalid error object''))
             | Success data \<Rightarrow> Inr \<lparr>res = JNull, err = data\<rparr>)
          else
            (case get_prop result ''res'' of
               Inl e \<Rightarrow> Inl e
             | Inr result_res \<Rightarrow>
                 (case responseSchema params result_res of
                    Throws e \<Rightarrow> Inl e
                  | Failure \<Rightarrow> Inl (JError (JStr ''Execution returned an invalid response object''))
                  | Success data \<Rightarrow> Inr \<lparr>res = data, err = JNull\<rparr>)))"

text \<open>
  The \<open>try\<close> block (lines 109 to 126), given the parsed input: it returns an envelope,
  throws, or waits for ever on the handler's promise.
\<close>

datatype 'a completion =
    Returned 'a
  | Thrown jsval
  | Waiting

definition try_block ::
  "'w build_function_context_req \<Rightarrow> jsval \<Rightarrow> 'w \<Rightarrow> envelope completion \<times> 'w" where
  "try_block params data w =
     (case execution params \<lparr>input = data, error = errorCreator\<rparr> w of
        (Return result, w') \<Rightarrow>
          (case validate_result params result of
             Inl e \<Rightarrow> (Thrown e, w')
           | Inr env \<Rightarrow> (Returned env, w'))
      | (ThrowSync e, w') \<Rightarrow> (Thrown e, w')
      | (RejectAsync e, w') \<Rightarrow> (Thrown e, w')
      | (NeverSettles, w') \<Rightarrow> (Waiting, w'))"

text \<open>
  The \<open>catch (e)\<close> clause (lines 127 to 132):
  \<open>errorCreator(e instanceof Error ? e.message : "Unknown error")\<close>, the message passed on
  as it is.
\<close>

fun caught_message :: "jsval \<Rightarrow> jsval" where
  "caught_message (JError m) = m"
| "caught_message e = JStr ''Unknown error''"

definition catch_clause :: "jsval \<Rightarrow> envelope" where
  "catch_clause e = \<lparr>res = JNull, err = errorCreator (caught_message e)\<rparr>"

text \<open>
  \<open>execute\<close>, with the parameters its closure captures made explicit. It returns the state
  of the promise of the \<open>async function\<close> and the world the handler left. The call
  \<open>inputSchema.safeParse(input)\<close> of line 101 stands before the \<open>try\<close>: what it throws
  rejects the promise.
\<close>

definition execute :: "'w build_function_context_req \<Rightarrow> jsval \<Rightarrow> 'w \<Rightarrow> envelope promise \<times> 'w" where
  "execute params raw w =
     (case inputSchema params raw of
        Throws e \<Rightarrow> (Rejected e, w)
      | Failure \<Rightarrow>
          (Fulfilled \<lparr>res = JNull, err = JObj [(''message'', JStr ''Invalid input'')]\<rparr>, w)
      | Success data \<Rightarrow>
          (case try_block params data w of
             (Returned env, w') \<Rightarrow> (Fulfilled env, w')
           | (Thrown e, w') \<Rightarrow> (Fulfilled (catch_clause e), w')
           | (Waiting, w') \<Rightarrow> (Pending, w')))"

text \<open>
  The returned object \<open>{ input: { validator }, response: { validator }, execute }\<close>. Its
  fields \<open>input\<close> and \<open>execute\<close> are written \<open>input_box\<close> and \<open>execute_entry\<close>
  (and \<open>response\<close>, likewise, \<open>response_box\<close>), since \<open>input\<close> is the field of the
  handler's argument and \<open>execute\<close> the function above.
\<close>

record validator_box =
  validator :: schema

record 'w build_function_context_result =
  input_box :: validator_box
  response_box :: validator_box
  execute_entry :: "jsval \<Rightarrow> 'w \<Rightarrow> envelope promise \<times> 'w"

definition buildFunctionContext :: "'w build_function_context_req \<Rightarrow> 'w build_function_context_result" where
  "buildFunctionContext params =
     \<lparr>input_box = \<lparr>validator = inputSchema params\<rparr>,
      response_box = \<lparr>validator = responseSchema params\<rparr>,
      execute_entry = execute params\<rparr>"


subsection \<open>The schemas of the examples\<close>

text \<open>
  The schemas the repository builds are \<open>z.object\<close>, \<open>z.number\<close> and \<open>z.string\<close>.
  They are modelled after the behaviour Zod documents for them on the values above:
  \<open>z.number()\<close> accepts numbers and \<open>z.string()\<close> strings, unchanged; \<open>z.object(shape)\<close>
  accepts an object each of whose shape keys passes its schema, and returns a new object
  with the shape's keys only (unknown keys are stripped); it parses every key of the shape,
  so what the schema of a key throws is thrown whether or not another key fails.
  \<open>z.any()\<close> accepts every value unchanged, and \<open>s.transform(f)\<close> applies \<open>f\<close> to what
  \<open>s\<close> returns; what \<open>f\<close> throws (\<open>Inl\<close>) is thrown by \<open>safeParse\<close>.
\<close>

definition z_number :: schema where
  "z_number v = (case v of JNum n \<Rightarrow> Success (JNum n) | _ \<Rightarrow> Failure)"

definition z_string :: schema where
  "z_string v = (case v of JStr s \<Rightarrow> Success (JStr s) | _ \<Rightarrow> Failure)"

definition z_any :: schema where
  "z_any v = Success v"

fun parse_shape :: "(string \<times> schema) list \<Rightarrow> jsval \<Rightarrow> jsval + (string \<times> jsval) list option" where
  "parse_shape [] v = Inr (Some [])"
| "parse_shape ((k, s) # shape) v =
     (case s (read_prop v k) of
        Throws e \<Rightarrow> Inl e
      | Failure \<Rightarrow> (case parse_shape shape v of Inl e \<Rightarrow> Inl e | Inr _ \<Rightarrow> Inr None)
      | Success d \<Rightarrow>
          (case parse_shape shape v of
             Inl e \<Rightarrow> Inl e
           | Inr None \<Rightarrow> Inr None
           | Inr (Some ds) \<Rightarrow> Inr (Some ((k, d) # ds))))"

definition object_result :: "jsval + (string \<times> jsval) list option \<Rightarrow> safe_parse_result" where
  "object_result r =
     (case r of Inl e \<Rightarrow> Throws e | Inr None \<Rightarrow> Failure | Inr (Some ds) \<Rightarrow> Success (JObj ds))"

definition z_object :: "(string \<times> schema) list \<Rightarrow> schema" where
  "z_object shape v =
     (case v of
        JObj kvs \<Rightarrow> object_result (parse_shape shape v)
      | JError m \<Rightarrow> object_result (parse_shape shape v)
      | _ \<Rightarrow> Failure)"

definition z_transform :: "schema \<Rightarrow> (jsval \<Rightarrow> jsval + jsval) \<Rightarrow> schema" where
  "z_transform s f v =
     (case s v of
        Success d \<Rightarrow> (case f d of Inl e \<Rightarrow> Throws e | Inr d' \<Rightarrow> Success d')
      | Failure \<Rightarrow> Failure
      | Throws e \<Rightarrow> Throws e)"

subsection \<open>The example contract \<open>foo\<close>\<close>

text \<open>
  \<open>input.id < 0\<close>. The input schema of \<open>foo\<close> lets only numbers reach the comparison.
  On the other values JavaScript converts to a number first; the result is \<open>NaN\<close>, 0 or 1
  for all of them but the strings that spell a number, and the comparison is false.
\<close>

fun lt_zero :: "jsval \<Rightarrow> bool" where
  "lt_zero (JNum n) = (n < 0)"
| "lt_zero _ = False"

definition foo_execution :: "'w handler" where
  "foo_execution args w =
     (case get_prop (input args) ''id'' of
        Inl e \<Rightarrow> (RejectAsync e, w)
      | Inr input_id \<Rightarrow>
          if lt_zero input_id
          then (Return (JObj [(''res'', JNull), (''err'', error args (JStr ''Invalid ID''))]), w)
          else (Return (JObj [(''res'', JObj [(''id'', input_id), (''name'', JStr ''Test'')]),
                              (''err'', JNull)]), w))"

definition foo_params :: "'w build_function_context_req" where
  "foo_params =
     \<lparr>inputSchema = z_object [(''id'', z_number)],
      responseSchema = z_object [(''id'', z_number), (''name'', z_string)],
      errorSchema = z_object [(''message'', z_string)],
      execution = foo_execution\<rparr>"

definition foo :: "'w build_function_context_result" where
  "foo = buildFunctionContext foo_params"

subsection \<open>Contracts and handlers used as concrete inputs\<close>

text \<open>
  A handler wrapped by \<open>spy\<close> behaves as the handler does and appends the \<open>input\<close> of
  each invocation to a log kept beside the world: the call-counting stub of a test.
\<close>

definition spy :: "'w handler \<Rightarrow> (jsval list \<times> 'w) handler" where
  "spy h args s = (case h args (snd s) of (b, w') \<Rightarrow> (b, (fst s @ [input args], w')))"

text \<open>The contract with its handler spied on; its world is the log and the handler's world.\<close>

definition with_spy :: "'w build_function_context_req \<Rightarrow> (jsval list \<times> 'w) build_function_context_req" where
  "with_spy params =
     \<lparr>inputSchema = inputSchema params,
      responseSchema = responseSchema params,
      errorSchema = errorSchema params,
      execution = spy (execution params)\<rparr>"

text \<open>A value validates against a schema when \<open>safeParse\<close> reports success on it.\<close>

definition conforms :: "schema \<Rightarrow> jsval \<Rightarrow> bool" where
  "conforms s v = (case s v of Success d \<Rightarrow> True | _ \<Rightarrow> False)"


text \<open>
  A handler that throws an \<open>Error\<close> whose \<open>message\<close> has been assigned the number 42
  (\<open>throw Object.assign(new Error(), { message: 42 })\<close>).
\<close>

definition numeric_message_params :: "unit build_function_context_req" where
  "numeric_message_params =
     foo_params\<lparr>execution := (\<lambda>args w. (RejectAsync (JError (JNum 42)), w))\<rparr>"



text \<open>A handler that resolves \<open>{ res: "not-an-object", err: null }\<close>.\<close>

definition not_an_object_params :: "unit build_function_context_req" where
  "not_an_object_params =
     foo_params\<lparr>execution :=
       (\<lambda>args w. (Return (JObj [(''res'', JStr ''not-an-object''), (''err'', JNull)]), w))\<rparr>"

text \<open>A handler that fills both slots.\<close>

definition both_slots_params :: "unit build_function_context_req" where
  "both_slots_params =
     foo_params\<lparr>execution :=
       (\<lambda>args w. (Return (JObj [(''res'', JObj [(''id'', JNum 1), (''name'', JStr ''Test'')]),
                                   (''err'', JObj [(''message'', JStr ''denied'')])]), w))\<rparr>"

text \<open>A handler whose success value carries a key the success schema does not know.\<close>

definition verbose_params :: "unit build_function_context_req" where
  "verbose_params =
     foo_params\<lparr>execution :=
       (\<lambda>args w. (Return (JObj [(''res'', JObj [(''id'', JNum 7), (''name'', JStr ''Test''),
                                                    (''debug'', JBool True)]),
                                   (''err'', JNull)]), w))\<rparr>"

text \<open>
  A contract whose success schema is \<open>z.any()\<close> and whose handler resolves
  \<open>{ res: null, err: null }\<close>.
\<close>

definition nullable_params :: "unit build_function_context_req" where
  "nullable_params =
     \<lparr>inputSchema = z_any,
      responseSchema = z_any,
      errorSchema = z_object [(''message'', z_string)],
      execution = (\<lambda>args w. (Return (JObj [(''res'', JNull), (''err'', JNull)]), w))\<rparr>"

text \<open>
  A contract whose error schema is \<open>z.any().transform(() => null)\<close> and whose handler
  resolves with an error.
\<close>

definition null_error_params :: "unit build_function_context_req" where
  "null_error_params =
     \<lparr>inputSchema = z_any,
      responseSchema = z_any,
      errorSchema = z_transform z_any (\<lambda>v. Inr JNull),
      execution = (\<lambda>args w. (Return (JObj [(''res'', JNull), (''err'', error args (JStr ''denied''))]), w))\<rparr>"

text \<open>The contract \<open>foo\<close> with the error schema \<open>{ code: number, message: string }\<close>.\<close>

definition coded_error_params :: "unit build_function_context_req" where
  "coded_error_params =
     foo_params\<lparr>errorSchema := z_object [(''code'', z_number), (''message'', z_string)]\<rparr>"

text \<open>
  A contract whose success schema is \<open>z.object({ id: z.number() }).transform(o => o.id)\<close>
  and whose handler resolves \<open>{ res: { id: 1 }, err: null }\<close>.
\<close>

definition unwrap_params :: "unit build_function_context_req" where
  "unwrap_params =
     \<lparr>inputSchema = z_any,
      responseSchema = z_transform (z_object [(''id'', z_number)]) (\<lambda>v. Inr (read_prop v ''id'')),
      errorSchema = z_object [(''message'', z_string)],
      execution = (\<lambda>args w. (Return (JObj [(''res'', JObj [(''id'', JNum 1)]), (''err'', JNull)]), w))\<rparr>"


section \<open>Properties\<close>

subsection \<open>The shapes of a fulfilled result\<close>

lemma errorCreator_not_null: "errorCreator m \<noteq> JNull"
  by (simp add: errorCreator_def)

lemma validate_result_Inr:
  assumes "validate_result params result = Inr env"
  shows "(\<exists>v d. v \<noteq> JNull \<and> errorSchema params v = Success d \<and> env = \<lparr>res = JNull, err = d\<rparr>) \<or>
         (\<exists>v d. responseSchema params v = Success d \<and> env = \<lparr>res = d, err = JNull\<rparr>)"
  using assms
  by (auto simp: validate_result_def split: sum.splits if_splits safe_parse_result.splits)

lemma try_block_Returned:
  assumes "try_block params data w = (Returned env, w')"
  shows "(\<exists>v d. v \<noteq> JNull \<and> errorSchema params v = Success d \<and> env = \<lparr>res = JNull, err = d\<rparr>) \<or>
         (\<exists>v d. responseSchema params v = Success d \<and> env = \<lparr>res = d, err = JNull\<rparr>)"
proof -
  from assms obtain result where "validate_result params result = Inr env"
    by (auto simp: try_block_def split: prod.splits behaviour.splits sum.splits)
  then show ?thesis by (rule validate_result_Inr)
qed

text \<open>
  A fulfilled result is the answer to an invalid input, or what the \<open>catch\<close> clause makes
  of an exception thrown in the \<open>try\<close> block, or holds the data of a successful parse by
  the error schema, or the data of a successful parse by the success schema.
\<close>

lemma execute_Fulfilled:
  assumes "fst (execute params raw w) = Fulfilled env"
  shows "(inputSchema params raw = Failure \<and> env = \<lparr>res = JNull, err = errorCreator (JStr ''Invalid input'')\<rparr>) \<or>
         (\<exists>data e w'. inputSchema params raw = Success data \<and>
            try_block params data w = (Thrown e, w') \<and> env = catch_clause e) \<or>
         (\<exists>v d. v \<noteq> JNull \<and> errorSchema params v = Success d \<and> env = \<lparr>res = JNull, err = d\<rparr>) \<or>
         (\<exists>v d. responseSchema params v = Success d \<and> env = \<lparr>res = d, err = JNull\<rparr>)"
proof (cases "inputSchema params raw")
  case (Throws e)
  with assms show ?thesis by (simp add: execute_def)
next
  case Failure
  with assms have "env = \<lparr>res = JNull, err = errorCreator (JStr ''Invalid input'')\<rparr>"
    by (simp add: execute_def errorCreator_def)
  with Failure show ?thesis by blast
next
  case (Success data)
  obtain c w' where run: "try_block params data w = (c, w')"
    by (cases "try_block params data w")
  show ?thesis
  proof (cases c)
    case (Returned env')
    with assms Success run have "env = env'" by (simp add: execute_def)
    with try_block_Returned [of params data w env' w'] run Returned show ?thesis by simp
  next
    case (Thrown e)
    with assms Success run have "env = catch_clause e" by (simp add: execute_def)
    with Success run Thrown show ?thesis by blast
  next
    case Waiting
    with assms Success run show ?thesis by (simp add: execute_def)
  qed
qed

lemma execute_Fulfilled_slots:
  assumes "fst (execute params raw w) = Fulfilled env"
  shows "(\<exists>m. env = \<lparr>res = JNull, err = errorCreator m\<rparr>) \<or>
         (\<exists>v d. v \<noteq> JNull \<and> errorSchema params v = Success d \<and> env = \<lparr>res = JNull, err = d\<rparr>) \<or>
         (\<exists>v d. responseSchema params v = Success d \<and> env = \<lparr>res = d, err = JNull\<rparr>)"
  using execute_Fulfilled [OF assms] by (auto simp: catch_clause_def)






subsection \<open>Evaluating the example schemas\<close>

lemmas schema_defs = z_object_def object_result_def z_number_def z_string_def

lemmas run_defs =
  execute_def try_block_def validate_result_def catch_clause_def errorCreator_def foo_execution_def

text \<open>
  What the input schema of \<open>foo\<close> hands to the handler is an object with a number as
  \<open>id\<close>: the comparison \<open>input.id < 0\<close> only ever sees numbers.
\<close>

lemma foo_input_parsed:
  assumes "inputSchema foo_params raw = Success data"
  shows "\<exists>n. data = JObj [(''id'', JNum n)]"
  using assms
  by (auto simp: foo_params_def schema_defs split: jsval.splits safe_parse_result.splits)

text \<open>The three runs of \<open>foo\<close> that the examples need, in any world.\<close>

lemma foo_execute_1:
  "execute foo_params (JObj [(''id'', JNum 1)]) w =
     (Fulfilled \<lparr>res = JObj [(''id'', JNum 1), (''name'', JStr ''Test'')], err = JNull\<rparr>, w)"
  by (simp add: foo_params_def run_defs schema_defs)

lemma foo_execute_minus_1:
  "execute foo_params (JObj [(''id'', JNum (- 1))]) w =
     (Fulfilled \<lparr>res = JNull, err = JObj [(''message'', JStr ''Invalid ID'')]\<rparr>, w)"
  by (simp add: foo_params_def run_defs schema_defs)


lemma z_object_not_null: "z_object shape v \<noteq> Success JNull"
  by (auto simp: z_object_def object_result_def split: jsval.splits sum.splits option.splits)

lemma foo_error_schema_idem:
  "errorSchema foo_params v = Success d \<Longrightarrow> conforms (errorSchema foo_params) d"
  by (auto simp: foo_params_def conforms_def schema_defs
      split: jsval.splits safe_parse_result.splits)

lemma foo_response_schema_idem:
  "responseSchema foo_params v = Success d \<Longrightarrow> conforms (responseSchema foo_params) d"
  by (auto simp: foo_params_def conforms_def schema_defs
      split: jsval.splits safe_parse_result.splits)

lemma foo_error_schema_message: "conforms (errorSchema foo_params) (errorCreator (JStr s))"
  by (simp add: foo_params_def conforms_def schema_defs errorCreator_def)

subsection \<open>C1: when \<open>execute\<close> resolves to an envelope\<close>




subsection \<open>C2: which slots of the envelope are null\<close>

text \<open>
  The claim that exactly one slot is non-null fails where a schema accepts or produces
  \<open>null\<close>: with the success schema \<open>z.any()\<close> a handler that resolves
  \<open>{ res: null, err: null }\<close> gets \<open>{ res: null, err: null }\<close> back, and so does a
  handler that declares an error under an error schema that maps it to \<open>null\<close>.
  (Non-null is read as the code's own test does, \<open>!== null\<close>.)
\<close>

theorem both_slots_null:
  "fst (execute nullable_params (JObj []) ()) = Fulfilled \<lparr>res = JNull, err = JNull\<rparr> \<and>
   fst (execute null_error_params (JObj []) ()) = Fulfilled \<lparr>res = JNull, err = JNull\<rparr>"
  by (simp add: nullable_params_def null_error_params_def run_defs schema_defs z_any_def z_transform_def)

text \<open>
  Claim C2, as amended. For every fulfilled result of \<open>execute\<close> the two slots are never
  both non-null; and exactly one of them is non-null whenever neither the success schema nor
  the error schema yields \<open>null\<close> as parsed data.
\<close>

theorem execute_slots:
  assumes "fst (execute params raw w) = Fulfilled env"
  shows "(res env = JNull \<or> err env = JNull) \<and>
         ((\<forall>v. responseSchema params v \<noteq> Success JNull) \<and> (\<forall>v. errorSchema params v \<noteq> Success JNull)
            \<longrightarrow> (res env = JNull) \<noteq> (err env = JNull))"
  using execute_Fulfilled_slots [OF assms] by (auto simp: errorCreator_not_null)

theorem execute_slots_witness:
  "fst (execute foo_params (JObj [(''id'', JNum 1)]) ())
     = Fulfilled \<lparr>res = JObj [(''id'', JNum 1), (''name'', JStr ''Test'')], err = JNull\<rparr> \<and>
   (\<forall>v. responseSchema (foo_params :: unit build_function_context_req) v \<noteq> Success JNull) \<and>
   (\<forall>v. errorSchema (foo_params :: unit build_function_context_req) v \<noteq> Success JNull) \<and>
   res \<lparr>res = JObj [(''id'', JNum 1), (''name'', JStr ''Test'')], err = JNull\<rparr> \<noteq> JNull \<and>
   err \<lparr>res = JObj [(''id'', JNum 1), (''name'', JStr ''Test'')], err = JNull\<rparr> = JNull"
proof -
  have run: "fst (execute foo_params (JObj [(''id'', JNum 1)]) ())
     = Fulfilled \<lparr>res = JObj [(''id'', JNum 1), (''name'', JStr ''Test'')], err = JNull\<rparr>"
    by (simp add: foo_execute_1)
  have nn: "(\<forall>v. responseSchema (foo_params :: unit build_function_context_req) v \<noteq> Success JNull) \<and>
            (\<forall>v. errorSchema (foo_params :: unit build_function_context_req) v \<noteq> Success JNull)"
    by (simp add: foo_params_def z_object_not_null)
  from execute_slots [OF run] nn run show ?thesis by simp
qed

subsection \<open>C3: schema conformance of the returned slot\<close>

text \<open>
  The claim fails for an error schema that does not accept the bare \<open>{ message }\<close> object
  the code builds: with the error schema \<open>{ code: number, message: string }\<close> a malformed
  input is answered \<open>{ message: "Invalid input" }\<close>, which that schema rejects. It fails
  for a schema whose parsed data is not again a value it accepts (a transform): the slot
  holds the parsed data, here the number 1, which the success schema rejects. And it fails
  for \<open>foo\<close> itself when the handler throws an \<open>Error\<close> whose \<open>message\<close> is not a
  string: the \<open>catch\<close> clause passes the message on as it is, and the error schema
  \<open>{ message: string }\<close> rejects \<open>{ message: 42 }\<close>.
\<close>

theorem error_not_conforming:
  "fst (execute coded_error_params (JObj [(''id'', JStr ''not-a-number'')]) ())
     = Fulfilled \<lparr>res = JNull, err = JObj [(''message'', JStr ''Invalid input'')]\<rparr> \<and>
   errorSchema coded_error_params (JObj [(''message'', JStr ''Invalid input'')]) = Failure \<and>
   fst (execute unwrap_params (JObj []) ()) = Fulfilled \<lparr>res = JNum 1, err = JNull\<rparr> \<and>
   responseSchema unwrap_params (JNum 1) = Failure \<and>
   fst (execute numeric_message_params (JObj [(''id'', JNum 1)]) ())
     = Fulfilled \<lparr>res = JNull, err = JObj [(''message'', JNum 42)]\<rparr> \<and>
   errorSchema numeric_message_params (JObj [(''message'', JNum 42)]) = Failure"
  by (simp add: coded_error_params_def unwrap_params_def numeric_message_params_def foo_params_def
      run_defs schema_defs z_any_def z_transform_def)

text \<open>
  Claim C3, as amended. For every contract whose error schema accepts every object
  \<open>{ message: s }\<close> with a string \<open>s\<close>, and whose success and error schemas accept the
  data they return on success, and every call to \<open>execute\<close> in which each exception
  trapped by the \<open>catch\<close> clause is either no \<open>Error\<close> or an \<open>Error\<close> whose message
  is a string: if the call is fulfilled, the non-null slot of its envelope validates against
  its schema, \<open>err\<close> against the error schema (input-validation failure and trapped
  exceptions included) and \<open>res\<close> against the success schema, whatever the handler
  returned.
\<close>

theorem execute_conformance:
  assumes "\<forall>s. conforms (errorSchema params) (errorCreator (JStr s))"
      and "\<forall>v d. responseSchema params v = Success d \<longrightarrow> conforms (responseSchema params) d"
      and "\<forall>v d. errorSchema params v = Success d \<longrightarrow> conforms (errorSchema params) d"
      and "\<forall>data e w'. inputSchema params raw = Success data \<and>
             try_block params data w = (Thrown e, w') \<longrightarrow> is_string (caught_message e)"
      and "fst (execute params raw w) = Fulfilled env"
  shows "(err env \<noteq> JNull \<longrightarrow> conforms (errorSchema params) (err env)) \<and>
         (res env \<noteq> JNull \<longrightarrow> conforms (responseSchema params) (res env))"
proof -
  from execute_Fulfilled [OF assms(5)] consider
      (invalid) "env = \<lparr>res = JNull, err = errorCreator (JStr ''Invalid input'')\<rparr>"
    | (caught) data e w' where "inputSchema params raw = Success data"
        "try_block params data w = (Thrown e, w')" "env = catch_clause e"
    | (declared) v d where "errorSchema params v = Success d" "env = \<lparr>res = JNull, err = d\<rparr>"
    | (succeeded) v d where "responseSchema params v = Success d" "env = \<lparr>res = d, err = JNull\<rparr>"
    by blast
  then show ?thesis
  proof cases
    case invalid
    with assms(1) show ?thesis by simp
  next
    case caught
    with assms(4) have "is_string (caught_message e)" by blast
    then obtain s where "caught_message e = JStr s" by (cases "caught_message e") auto
    with caught(3) assms(1) show ?thesis by (simp add: catch_clause_def)
  next
    case declared
    with assms(3) show ?thesis by auto
  next
    case succeeded
    with assms(2) show ?thesis by auto
  qed
qed

theorem execute_conformance_witness:
  "fst (execute foo_params (JObj [(''id'', JNum (- 1))]) ())
     = Fulfilled \<lparr>res = JNull, err = JObj [(''message'', JStr ''Invalid ID'')]\<rparr> \<and>
   conforms (errorSchema (foo_params :: unit build_function_context_req))
     (JObj [(''message'', JStr ''Invalid ID'')])"
proof -
  have run: "fst (execute foo_params (JObj [(''id'', JNum (- 1))]) ())
     = Fulfilled \<lparr>res = JNull, err = JObj [(''message'', JStr ''Invalid ID'')]\<rparr>"
    by (simp add: foo_execute_minus_1)
  have h1: "\<forall>s. conforms (errorSchema (foo_params :: unit build_function_context_req)) (errorCreator (JStr s))"
    by (simp add: foo_error_schema_message)
  have h2: "\<forall>v d. responseSchema (foo_params :: unit build_function_context_req) v = Success d
              \<longrightarrow> conforms (responseSchema (foo_params :: unit build_function_context_req)) d"
    by (blast intro: foo_response_schema_idem)
  have h3: "\<forall>v d. errorSchema (foo_params :: unit build_function_context_req) v = Success d
              \<longrightarrow> conforms (errorSchema (foo_params :: unit build_function_context_req)) d"
    by (blast intro: foo_error_schema_idem)
  have h4: "\<forall>data e w'. inputSchema foo_params (JObj [(''id'', JNum (- 1))]) = Success data \<and>
              try_block foo_params data () = (Thrown e, w') \<longrightarrow> is_string (caught_message e)"
    by (simp add: foo_params_def run_defs schema_defs)
  from execute_conformance [OF h1 h2 h3 h4 run] run show ?thesis by simp
qed

subsection \<open>C4: input validation comes first, then one handler invocation\<close>

text \<open>
  Claim C4. If the raw input fails the input schema, \<open>execute\<close> returns
  \<open>{ res: null, err: { message: "Invalid input" } }\<close> and the handler is never invoked:
  the log of a spied handler and the handler's world are as they were. If the raw input
  passes, the handler is invoked exactly once, with the parsed input: the log grows by that
  one entry, and the world is the one a single invocation on the parsed input leaves.
  Spying does not change what \<open>execute\<close> returns.
\<close>

theorem input_short_circuit:
  "(inputSchema params raw = Failure \<longrightarrow>
      execute (with_spy params) raw (log, w)
        = (Fulfilled \<lparr>res = JNull, err = JObj [(''message'', JStr ''Invalid input'')]\<rparr>, (log, w))) \<and>
   (\<forall>data. inputSchema params raw = Success data \<longrightarrow>
      snd (execute (with_spy params) raw (log, w))
        = (log @ [data], snd (execution params \<lparr>input = data, error = errorCreator\<rparr> w))) \<and>
   fst (execute (with_spy params) raw (log, w)) = fst (execute params raw w)"
  by (auto simp: execute_def try_block_def validate_result_def with_spy_def spy_def
      split: prod.splits behaviour.splits sum.splits safe_parse_result.splits)

text \<open>
  The theorem at \<open>foo\<close>: \<open>{ id: "not-a-number" }\<close> leaves the log empty, and
  \<open>{ id: 1, junk: true }\<close> reaches the handler once, as the parsed \<open>{ id: 1 }\<close>.
\<close>

theorem input_short_circuit_witness:
  "inputSchema (foo_params :: unit build_function_context_req) (JObj [(''id'', JStr ''not-a-number'')]) = Failure \<and>
   execute (with_spy foo_params) (JObj [(''id'', JStr ''not-a-number'')]) ([], ())
     = (Fulfilled \<lparr>res = JNull, err = JObj [(''message'', JStr ''Invalid input'')]\<rparr>, ([], ())) \<and>
   inputSchema (foo_params :: unit build_function_context_req) (JObj [(''id'', JNum 1), (''junk'', JBool True)])
     = Success (JObj [(''id'', JNum 1)]) \<and>
   snd (execute (with_spy foo_params) (JObj [(''id'', JNum 1), (''junk'', JBool True)]) ([], ()))
     = ([JObj [(''id'', JNum 1)]], ())"
proof -
  have bad: "inputSchema (foo_params :: unit build_function_context_req) (JObj [(''id'', JStr ''not-a-number'')]) = Failure"
    by (simp add: foo_params_def schema_defs)
  have good: "inputSchema (foo_params :: unit build_function_context_req) (JObj [(''id'', JNum 1), (''junk'', JBool True)])
     = Success (JObj [(''id'', JNum 1)])"
    by (simp add: foo_params_def schema_defs)
  from input_short_circuit [of foo_params "JObj [(''id'', JStr ''not-a-number'')]" "[]" "()"]
       input_short_circuit [of foo_params "JObj [(''id'', JNum 1), (''junk'', JBool True)]" "[]" "()"]
       bad good
  show ?thesis by simp
qed

subsection \<open>C5: a handler that returns a value its schema rejects\<close>

text \<open>
  Claim C5. When input validation succeeds and the handler resolves with a result whose
  \<open>err\<close> is non-null and fails the error schema, \<open>execute\<close> resolves to
  \<open>{ res: null, err: { message: "Execution returned an invalid error object" } }\<close>; when
  \<open>err\<close> is null and \<open>res\<close> fails the success schema, it resolves to
  \<open>{ res: null, err: { message: "Execution returned an invalid response object" } }\<close>. The
  two errors differ from each other and from the error of an invalid input.
\<close>

theorem output_defects:
  assumes "inputSchema params raw = Success data"
      and "execution params \<lparr>input = data, error = errorCreator\<rparr> w = (Return result, w')"
      and "get_prop result ''err'' = Inr e"
  shows "(e \<noteq> JNull \<and> errorSchema params e = Failure \<longrightarrow>
            fst (execute params raw w) =
              Fulfilled \<lparr>res = JNull, err = JObj [(''message'', JStr ''Execution returned an invalid error object'')]\<rparr>) \<and>
         (e = JNull \<and> responseSchema params (read_prop result ''res'') = Failure \<longrightarrow>
            fst (execute params raw w) =
              Fulfilled \<lparr>res = JNull, err = JObj [(''message'', JStr ''Execution returned an invalid response object'')]\<rparr>) \<and>
         errorCreator (JStr ''Execution returned an invalid error object'')
           \<noteq> errorCreator (JStr ''Execution returned an invalid response object'') \<and>
         errorCreator (JStr ''Execution returned an invalid error object'') \<noteq> errorCreator (JStr ''Invalid input'') \<and>
         errorCreator (JStr ''Execution returned an invalid response object'') \<noteq> errorCreator (JStr ''Invalid input'')"
  using assms
  by (cases result)
     (auto simp: execute_def try_block_def validate_result_def catch_clause_def errorCreator_def)

text \<open>
  The theorem at the handler that resolves \<open>{ res: "not-an-object", err: null }\<close> under
  the success schema of \<open>foo\<close>.
\<close>

theorem output_defects_witness:
  "inputSchema not_an_object_params (JObj [(''id'', JNum 1)]) = Success (JObj [(''id'', JNum 1)]) \<and>
   execution not_an_object_params \<lparr>input = JObj [(''id'', JNum 1)], error = errorCreator\<rparr> ()
     = (Return (JObj [(''res'', JStr ''not-an-object''), (''err'', JNull)]), ()) \<and>
   get_prop (JObj [(''res'', JStr ''not-an-object''), (''err'', JNull)]) ''err'' = Inr JNull \<and>
   responseSchema not_an_object_params (read_prop (JObj [(''res'', JStr ''not-an-object''), (''err'', JNull)]) ''res'') = Failure \<and>
   fst (execute not_an_object_params (JObj [(''id'', JNum 1)]) ())
     = Fulfilled \<lparr>res = JNull, err = JObj [(''message'', JStr ''Execution returned an invalid response object'')]\<rparr>"
proof -
  have h1: "inputSchema not_an_object_params (JObj [(''id'', JNum 1)]) = Success (JObj [(''id'', JNum 1)])"
    by (simp add: not_an_object_params_def foo_params_def schema_defs)
  have h2: "execution not_an_object_params \<lparr>input = JObj [(''id'', JNum 1)], error = errorCreator\<rparr> ()
     = (Return (JObj [(''res'', JStr ''not-an-object''), (''err'', JNull)]), ())"
    by (simp add: not_an_object_params_def)
  have h3: "get_prop (JObj [(''res'', JStr ''not-an-object''), (''err'', JNull)]) ''err'' = Inr JNull"
    by simp
  have h4: "responseSchema not_an_object_params (read_prop (JObj [(''res'', JStr ''not-an-object''), (''err'', JNull)]) ''res'') = Failure"
    by (simp add: not_an_object_params_def foo_params_def schema_defs)
  from output_defects [OF h1 h2 h3] h1 h2 h3 h4 show ?thesis by simp
qed

subsection \<open>C6: a non-null \<open>err\<close> decides the branch\<close>

text \<open>
  Claim C6. For every handler result whose \<open>err\<close> is non-null, \<open>execute\<close> takes the
  error branch whatever \<open>res\<close> holds: \<open>res\<close> of the returned envelope is null, \<open>err\<close>
  is the handler's \<open>err\<close> as the error schema parsed it (or the error of an invalid
  error object when the schema rejects it, or what the \<open>catch\<close> clause makes of what the
  schema throws), the outcome is the same under any other success schema, and the validation
  of the result does not depend on its \<open>res\<close> slot.
\<close>

theorem err_authoritative:
  assumes "inputSchema params raw = Success data"
      and "execution params \<lparr>input = data, error = errorCreator\<rparr> w = (Return result, w')"
      and "get_prop result ''err'' = Inr e"
      and "e \<noteq> JNull"
  shows "fst (execute params raw w) =
           Fulfilled \<lparr>res = JNull,
                      err = (case errorSchema params e of
                               Success d \<Rightarrow> d
                             | Failure \<Rightarrow> errorCreator (JStr ''Execution returned an invalid error object'')
                             | Throws x \<Rightarrow> errorCreator (caught_message x))\<rparr> \<and>
         (\<forall>s. execute (params\<lparr>responseSchema := s\<rparr>) raw w = execute params raw w) \<and>
         (\<forall>r. validate_result params (JObj [(''res'', r), (''err'', e)])
                = validate_result params (JObj [(''res'', JNull), (''err'', e)]))"
  using assms
  by (auto simp: execute_def try_block_def validate_result_def catch_clause_def
      split: safe_parse_result.splits)

text \<open>The theorem at a handler that fills both slots.\<close>

theorem err_authoritative_witness:
  "inputSchema both_slots_params (JObj [(''id'', JNum 1)]) = Success (JObj [(''id'', JNum 1)]) \<and>
   execution both_slots_params \<lparr>input = JObj [(''id'', JNum 1)], error = errorCreator\<rparr> ()
     = (Return (JObj [(''res'', JObj [(''id'', JNum 1), (''name'', JStr ''Test'')]),
                      (''err'', JObj [(''message'', JStr ''denied'')])]), ()) \<and>
   fst (execute both_slots_params (JObj [(''id'', JNum 1)]) ())
     = Fulfilled \<lparr>res = JNull, err = JObj [(''message'', JStr ''denied'')]\<rparr>"
proof -
  have h1: "inputSchema both_slots_params (JObj [(''id'', JNum 1)]) = Success (JObj [(''id'', JNum 1)])"
    by (simp add: both_slots_params_def foo_params_def schema_defs)
  have h2: "execution both_slots_params \<lparr>input = JObj [(''id'', JNum 1)], error = errorCreator\<rparr> ()
     = (Return (JObj [(''res'', JObj [(''id'', JNum 1), (''name'', JStr ''Test'')]),
                      (''err'', JObj [(''message'', JStr ''denied'')])]), ())"
    by (simp add: both_slots_params_def)
  have h3: "get_prop (JObj [(''res'', JObj [(''id'', JNum 1), (''name'', JStr ''Test'')]),
                      (''err'', JObj [(''message'', JStr ''denied'')])]) ''err''
              = Inr (JObj [(''message'', JStr ''denied'')])"
    by simp
  have h4: "JObj [(''message'', JStr ''denied'')] \<noteq> JNull" by simp
  have h5: "errorSchema both_slots_params (JObj [(''message'', JStr ''denied'')])
              = Success (JObj [(''message'', JStr ''denied'')])"
    by (simp add: both_slots_params_def foo_params_def schema_defs)
  from err_authoritative [OF h1 h2 h3 h4] h1 h2 h5 show ?thesis by simp
qed

subsection \<open>C7: trapped exceptions\<close>



subsection \<open>C8: what \<open>buildFunctionContext\<close> returns, and what later calls validate with\<close>



subsection \<open>C9: the example contract\<close>

text \<open>
  Claim C9. For the contract \<open>foo\<close> (input schema \<open>{ id: number }\<close>, success schema
  \<open>{ id: number, name: string }\<close>, error schema \<open>{ message: string }\<close>, and the handler
  that returns the error \<open>"Invalid ID"\<close> for a negative id and
  \<open>{ id: input.id, name: "Test" }\<close> otherwise), \<open>execute({ id: 1 })\<close> resolves to
  \<open>{ res: { id: 1, name: "Test" }, err: null }\<close> and \<open>execute({ id: -1 })\<close> resolves to
  \<open>{ res: null, err: { message: "Invalid ID" } }\<close>.
\<close>

theorem foo_examples:
  "execute_entry foo (JObj [(''id'', JNum 1)]) w =
     (Fulfilled \<lparr>res = JObj [(''id'', JNum 1), (''name'', JStr ''Test'')], err = JNull\<rparr>, w) \<and>
   execute_entry foo (JObj [(''id'', JNum (- 1))]) w =
     (Fulfilled \<lparr>res = JNull, err = JObj [(''message'', JStr ''Invalid ID'')]\<rparr>, w)"
  by (simp add: foo_def buildFunctionContext_def foo_execute_1 foo_execute_minus_1)

subsection \<open>C10: the caller sees the parsed data\<close>

text \<open>
  Claim C10. When the handler's result passes output validation, \<open>execute\<close> returns the
  data the schema parsed (\<open>parsedErr.data\<close> on the error branch, \<open>parsedRes.data\<close> on
  the success branch), not the object the handler returned.
\<close>

theorem parsed_data_returned:
  assumes "inputSchema params raw = Success data"
      and "execution params \<lparr>input = data, error = errorCreator\<rparr> w = (Return result, w')"
      and "get_prop result ''err'' = Inr e"
  shows "(e \<noteq> JNull \<and> errorSchema params e = Success d \<longrightarrow>
            fst (execute params raw w) = Fulfilled \<lparr>res = JNull, err = d\<rparr>) \<and>
         (e = JNull \<and> responseSchema params (read_prop result ''res'') = Success d \<longrightarrow>
            fst (execute params raw w) = Fulfilled \<lparr>res = d, err = JNull\<rparr>)"
  using assms
  by (cases result) (auto simp: execute_def try_block_def validate_result_def)

text \<open>
  The theorem at a handler whose success value carries an unknown key: the caller gets the
  value without it.
\<close>

theorem parsed_data_returned_witness:
  "inputSchema verbose_params (JObj [(''id'', JNum 7)]) = Success (JObj [(''id'', JNum 7)]) \<and>
   execution verbose_params \<lparr>input = JObj [(''id'', JNum 7)], error = errorCreator\<rparr> ()
     = (Return (JObj [(''res'', JObj [(''id'', JNum 7), (''name'', JStr ''Test''), (''debug'', JBool True)]),
                      (''err'', JNull)]), ()) \<and>
   fst (execute verbose_params (JObj [(''id'', JNum 7)]) ())
     = Fulfilled \<lparr>res = JObj [(''id'', JNum 7), (''name'', JStr ''Test'')], err = JNull\<rparr> \<and>
   JObj [(''id'', JNum 7), (''name'', JStr ''Test'')]
     \<noteq> JObj [(''id'', JNum 7), (''name'', JStr ''Test''), (''debug'', JBool True)]"
proof -
  have h1: "inputSchema verbose_params (JObj [(''id'', JNum 7)]) = Success (JObj [(''id'', JNum 7)])"
    by (simp add: verbose_params_def foo_params_def schema_defs)
  have h2: "execution verbose_params \<lparr>input = JObj [(''id'', JNum 7)], error = errorCreator\<rparr> ()
     = (Return (JObj [(''res'', JObj [(''id'', JNum 7), (''name'', JStr ''Test''), (''debug'', JBool True)]),
                      (''err'', JNull)]), ())"
    by (simp add: verbose_params_def)
  have h3: "get_prop (JObj [(''res'', JObj [(''id'', JNum 7), (''name'', JStr ''Test''), (''debug'', JBool True)]),
                      (''err'', JNull)]) ''err'' = Inr JNull"
    by simp
  have h4: "responseSchema verbose_params
              (read_prop (JObj [(''res'', JObj [(''id'', JNum 7), (''name'', JStr ''Test''), (''debug'', JBool True)]),
                      (''err'', JNull)]) ''res'')
            = Success (JObj [(''id'', JNum 7), (''name'', JStr ''Test'')])"
    by (simp add: verbose_params_def foo_params_def schema_defs)
  from parsed_data_returned [OF h1 h2 h3, of "JObj [(''id'', JNum 7), (''name'', JStr ''Test'')]"] h1 h2 h4
  show ?thesis by simp
qed

end
